theory Spec2Isabelle
  imports Main "HOL-Library.Word"
begin

section \<open>The thread shim of lfi-bind (src/embed/stub/thread.c)\<close>

text \<open>
  The file defines two functions, \<open>_lfi_thread_create\<close> and \<open>_lfi_thread_destroy\<close>.
  Both are sequences of calls into the C library (\<open>malloc\<close>, \<open>free\<close>) and the POSIX
  thread library (\<open>pthread_attr_init\<close>, \<open>pthread_attr_setstacksize\<close>,
  \<open>pthread_create\<close>). The embedding passes the state those calls act on (the heap, the
  started threads, the attribute objects in use, the log of library calls) explicitly,
  and takes what the library answers to each call as a parameter, so that every theorem
  holds for every answer the platform can give.
\<close>

subsection \<open>Data\<close>

text \<open>A C pointer: the null pointer or an address.\<close>

datatype ptr = NULL | Ptr nat

text \<open>The entry function \<open>fn\<close> is a code address.\<close>

type_synonym fn = nat

text \<open>
  \<open>pthread_attr_t\<close>: only the stack size is ever set by the program. The local variable
  \<open>attrs\<close> is declared without an initialiser, so its content is indeterminate until
  \<open>pthread_attr_init\<close> succeeds on it.
\<close>

record pthread_attr_t =
  stacksize :: nat

datatype attr_obj = Indeterminate | Initialised pthread_attr_t

text \<open>
  The library calls a program can issue on these objects. The log of a run is a list
  of them, each with its arguments and, where the program reads it, its return value.
\<close>

datatype call =
    Malloc nat ptr
  | Free ptr
  | AttrInit int
  | AttrSetStackSize nat int
  | AttrDestroy
  | PthreadCreate ptr attr_obj fn ptr int
  | PthreadJoin nat
  | PthreadDetach nat
  | PthreadCancel nat
  | PthreadKill nat int

text \<open>A started native thread.\<close>

record thread =
  thread_id :: nat
  start_routine :: fn
  start_arg :: ptr
  stack_size :: nat

text \<open>
  A live heap block: its size in bytes and, for the block holding a \<open>pthread_t\<close>, the
  thread identifier stored in it (\<open>None\<close> while the block is uninitialised).
\<close>

record block =
  block_size :: nat
  stored_id :: "nat option"

record world =
  heap :: "nat \<rightharpoonup> block"
  threads :: "thread list"
  live_attrs :: nat
  calls :: "call list"

text \<open>
  What the platform answers during one run of \<open>_lfi_thread_create\<close>: the size of
  \<open>pthread_t\<close>, the pointer \<open>malloc\<close> returns, the return codes of the three pthread
  calls, the stack size a freshly initialised attribute object carries, and the
  identifier given to a thread that starts.
\<close>

record platform =
  sizeof_pthread_t :: nat
  malloc_ret :: ptr
  attr_init_ret :: int
  default_stacksize :: nat
  attr_setstacksize_ret :: int
  pthread_create_ret :: int
  new_thread_id :: nat

text \<open>Undefined behaviour of the C program is a value of its own.\<close>

datatype fault = NullStore | InvalidStore | IndeterminateAttr | InvalidFree

subsection \<open>The library calls\<close>

definition log :: "call \<Rightarrow> world \<Rightarrow> world" where
  "log c w = w\<lparr>calls := calls w @ [c]\<rparr>"

text \<open>\<open>malloc(n)\<close>: a null pointer, or a new uninitialised block of \<open>n\<close> bytes.\<close>

definition malloc :: "platform \<Rightarrow> nat \<Rightarrow> world \<Rightarrow> ptr \<times> world" where
  "malloc p n w =
     (let w1 = log (Malloc n (malloc_ret p)) w in
      case malloc_ret p of
        NULL \<Rightarrow> (NULL, w1)
      | Ptr a \<Rightarrow> (Ptr a, w1\<lparr>heap := (heap w1)(a \<mapsto> \<lparr>block_size = n, stored_id = None\<rparr>)\<rparr>))"

text \<open>\<open>free(q)\<close>: nothing for a null pointer, the release of a live block otherwise.\<close>

definition free :: "ptr \<Rightarrow> world \<Rightarrow> (fault + unit) \<times> world" where
  "free q w =
     (let w1 = log (Free q) w in
      case q of
        NULL \<Rightarrow> (Inr (), w1)
      | Ptr a \<Rightarrow>
          (case heap w1 a of
             None \<Rightarrow> (Inl InvalidFree, w1)
           | Some b \<Rightarrow> (Inr (), w1\<lparr>heap := (heap w1)(a := None)\<rparr>)))"

text \<open>
  \<open>pthread_attr_init(&attrs)\<close>: on return code 0 the object is initialised with the
  platform's defaults and stays in use until \<open>pthread_attr_destroy\<close>.
\<close>

definition pthread_attr_init :: "platform \<Rightarrow> attr_obj \<Rightarrow> world \<Rightarrow> (int \<times> attr_obj) \<times> world" where
  "pthread_attr_init p attrs w =
     (let r = attr_init_ret p; w1 = log (AttrInit r) w in
      if r = 0
      then ((r, Initialised \<lparr>stacksize = default_stacksize p\<rparr>), w1\<lparr>live_attrs := Suc (live_attrs w1)\<rparr>)
      else ((r, attrs), w1))"

text \<open>\<open>pthread_attr_setstacksize(&attrs, n)\<close>: on return code 0 the stack size is \<open>n\<close>.\<close>

definition pthread_attr_setstacksize ::
    "platform \<Rightarrow> attr_obj \<Rightarrow> nat \<Rightarrow> world \<Rightarrow> (fault + int \<times> attr_obj) \<times> world" where
  "pthread_attr_setstacksize p attrs n w =
     (let r = attr_setstacksize_ret p; w1 = log (AttrSetStackSize n r) w in
      case attrs of
        Indeterminate \<Rightarrow> (Inl IndeterminateAttr, w1)
      | Initialised a \<Rightarrow>
          if r = 0 then (Inr (r, Initialised (a\<lparr>stacksize := n\<rparr>)), w1)
          else (Inr (r, attrs), w1))"

text \<open>
  \<open>pthread_create(t, &attrs, fn, arg)\<close>: on return code 0 a thread running \<open>fn(arg)\<close> on
  a stack of the attribute object's size has started and its identifier is stored in
  \<open>*t\<close>; on any other return code no thread has started and \<open>*t\<close> is not written.
\<close>

definition pthread_create ::
    "platform \<Rightarrow> ptr \<Rightarrow> attr_obj \<Rightarrow> fn \<Rightarrow> ptr \<Rightarrow> world \<Rightarrow> (fault + int) \<times> world" where
  "pthread_create p t attrs f arg w =
     (let r = pthread_create_ret p; w1 = log (PthreadCreate t attrs f arg r) w in
      case attrs of
        Indeterminate \<Rightarrow> (Inl IndeterminateAttr, w1)
      | Initialised a \<Rightarrow>
          if r \<noteq> 0 then (Inr r, w1)
          else
            (case t of
               NULL \<Rightarrow> (Inl NullStore, w1)
             | Ptr x \<Rightarrow>
                 (case heap w1 x of
                    None \<Rightarrow> (Inl InvalidStore, w1)
                  | Some b \<Rightarrow>
                      (Inr r,
                       w1\<lparr>heap := (heap w1)(x \<mapsto> b\<lparr>stored_id := Some (new_thread_id p)\<rparr>),
                          threads := threads w1 @
                            [\<lparr>thread_id = new_thread_id p, start_routine = f,
                              start_arg = arg, stack_size = stacksize a\<rparr>]\<rparr>))))"

subsection \<open>The two functions of thread.c\<close>

text \<open>
  The stack size argument \<open>2 * 1024 * 1024\<close> is computed in C's \<open>int\<close> (32 bits) and
  converted to \<open>size_t\<close>.
\<close>

definition stack_size_arg :: nat where
  "stack_size_arg = nat (sint (2 * 1024 * 1024 :: 32 word))"

text \<open>
  \<^verbatim>\<open>
  void* _lfi_thread_create(void* fn) {
      pthread_t* t = malloc(sizeof(pthread_t));
      pthread_attr_t attrs;
      int r = pthread_attr_init(&attrs);
      if (r) { return NULL; }
      r = pthread_attr_setstacksize(&attrs, 2 * 1024 * 1024);
      if (r) { return NULL; }
      pthread_create(t, &attrs, fn, NULL);
      return t;
  }
  \<close>
\<close>

definition lfi_thread_create :: "platform \<Rightarrow> fn \<Rightarrow> world \<Rightarrow> (fault + ptr) \<times> world" where
  "lfi_thread_create p f w =
     (let (t, w1) = malloc p (sizeof_pthread_t p) w;
          attrs = Indeterminate;
          ((r, attrs), w2) = pthread_attr_init p attrs w1
      in if r \<noteq> 0 then (Inr NULL, w2)
         else
           (case pthread_attr_setstacksize p attrs stack_size_arg w2 of
              (Inl e, w3) \<Rightarrow> (Inl e, w3)
            | (Inr (r, attrs), w3) \<Rightarrow>
                if r \<noteq> 0 then (Inr NULL, w3)
                else
                  (case pthread_create p t attrs f NULL w3 of
                     (Inl e, w4) \<Rightarrow> (Inl e, w4)
                   | (Inr _, w4) \<Rightarrow> (Inr t, w4))))"

text \<open>
  \<^verbatim>\<open>
  void _lfi_thread_destroy(void* arg) {
      free((pthread_t*) arg);
  }
  \<close>
\<close>

definition lfi_thread_destroy :: "ptr \<Rightarrow> world \<Rightarrow> (fault + unit) \<times> world" where
  "lfi_thread_destroy arg w = free arg w"

text \<open>The calls issued between two states of one run.\<close>

definition issued :: "world \<Rightarrow> world \<Rightarrow> call list" where
  "issued w w' = drop (length (calls w)) (calls w')"

fun is_pthread_create :: "call \<Rightarrow> bool" where
  "is_pthread_create (PthreadCreate t a f x r) = True"
| "is_pthread_create c = False"

subsection \<open>Concrete inputs\<close>

text \<open>A world with nothing allocated and no thread started.\<close>

definition empty_world :: world where
  "empty_world = \<lparr>heap = Map.empty, threads = [], live_attrs = 0, calls = []\<rparr>"

text \<open>
  A platform with an 8-byte \<open>pthread_t\<close> and 8 MiB default stacks, answering the four
  calls of one run with the given pointer and return codes.
\<close>

definition answers :: "ptr \<Rightarrow> int \<Rightarrow> int \<Rightarrow> int \<Rightarrow> platform" where
  "answers m i s c =
     \<lparr>sizeof_pthread_t = 8, malloc_ret = m, attr_init_ret = i, default_stacksize = 8388608,
      attr_setstacksize_ret = s, pthread_create_ret = c, new_thread_id = 1\<rparr>"

subsection \<open>Basic facts\<close>

lemma stack_size_arg_value: "stack_size_arg = 2097152"
  by (simp add: stack_size_arg_def)

lemma log_simps:
  "calls (log c w) = calls w @ [c]" "heap (log c w) = heap w"
  "threads (log c w) = threads w" "live_attrs (log c w) = live_attrs w"
  by (simp_all add: log_def)

lemma issued_append: "calls w' = calls w @ cs \<Longrightarrow> issued w w' = cs"
  by (simp add: issued_def)

lemma answers_simps:
  "sizeof_pthread_t (answers m i s c) = 8" "malloc_ret (answers m i s c) = m"
  "attr_init_ret (answers m i s c) = i" "default_stacksize (answers m i s c) = 8388608"
  "attr_setstacksize_ret (answers m i s c) = s" "pthread_create_ret (answers m i s c) = c"
  "new_thread_id (answers m i s c) = 1"
  by (simp_all add: answers_def)

lemma empty_world_simps:
  "heap empty_world = Map.empty" "threads empty_world = []"
  "live_attrs empty_world = 0" "calls empty_world = []"
  by (simp_all add: empty_world_def)

subsection \<open>What \<open>_lfi_thread_create\<close> returns and leaves behind\<close>

text \<open>
  The return value and each component of the final state, for every answer of the
  platform. All later theorems about \<open>_lfi_thread_create\<close> are read off these.
\<close>

lemmas create_unfold =
  lfi_thread_create_def malloc_def pthread_attr_init_def pthread_attr_setstacksize_def
  pthread_create_def log_simps Let_def

lemma create_fst:
  "fst (lfi_thread_create p f w) =
     (if attr_init_ret p \<noteq> 0 \<or> attr_setstacksize_ret p \<noteq> 0 then Inr NULL
      else if pthread_create_ret p \<noteq> 0 then Inr (malloc_ret p)
      else case malloc_ret p of NULL \<Rightarrow> Inl NullStore | Ptr a \<Rightarrow> Inr (Ptr a))"
  by (simp add: create_unfold split: ptr.splits)

lemma create_calls:
  "calls (snd (lfi_thread_create p f w)) =
     calls w @ Malloc (sizeof_pthread_t p) (malloc_ret p) # AttrInit (attr_init_ret p) #
       (if attr_init_ret p \<noteq> 0 then []
        else AttrSetStackSize stack_size_arg (attr_setstacksize_ret p) #
          (if attr_setstacksize_ret p \<noteq> 0 then []
           else [PthreadCreate (malloc_ret p) (Initialised \<lparr>stacksize = stack_size_arg\<rparr>) f NULL
                   (pthread_create_ret p)]))"
  by (simp add: create_unfold split: ptr.splits)

lemma create_issued:
  "issued w (snd (lfi_thread_create p f w)) =
     Malloc (sizeof_pthread_t p) (malloc_ret p) # AttrInit (attr_init_ret p) #
       (if attr_init_ret p \<noteq> 0 then []
        else AttrSetStackSize stack_size_arg (attr_setstacksize_ret p) #
          (if attr_setstacksize_ret p \<noteq> 0 then []
           else [PthreadCreate (malloc_ret p) (Initialised \<lparr>stacksize = stack_size_arg\<rparr>) f NULL
                   (pthread_create_ret p)]))"
  by (rule issued_append) (rule create_calls)

lemma create_live_attrs:
  "live_attrs (snd (lfi_thread_create p f w)) =
     (if attr_init_ret p = 0 then Suc (live_attrs w) else live_attrs w)"
  by (simp add: create_unfold split: ptr.splits)

lemma create_threads:
  "threads (snd (lfi_thread_create p f w)) =
     (if attr_init_ret p = 0 \<and> attr_setstacksize_ret p = 0 \<and> pthread_create_ret p = 0
         \<and> malloc_ret p \<noteq> NULL
      then threads w @ [\<lparr>thread_id = new_thread_id p, start_routine = f, start_arg = NULL,
                         stack_size = stack_size_arg\<rparr>]
      else threads w)"
  by (simp add: create_unfold split: ptr.splits)

lemma create_heap:
  "heap (snd (lfi_thread_create p f w)) =
     (case malloc_ret p of
        NULL \<Rightarrow> heap w
      | Ptr a \<Rightarrow>
          (heap w)(a \<mapsto> \<lparr>block_size = sizeof_pthread_t p,
             stored_id =
               (if attr_init_ret p = 0 \<and> attr_setstacksize_ret p = 0 \<and> pthread_create_ret p = 0
                then Some (new_thread_id p) else None)\<rparr>))"
  by (simp add: create_unfold split: ptr.splits)

subsection \<open>What \<open>_lfi_thread_destroy\<close> returns and leaves behind\<close>

lemma destroy_null: "lfi_thread_destroy NULL w = (Inr (), w\<lparr>calls := calls w @ [Free NULL]\<rparr>)"
  by (simp add: lfi_thread_destroy_def free_def log_def)

lemma destroy_live:
  "heap w a = Some b \<Longrightarrow>
   lfi_thread_destroy (Ptr a) w =
     (Inr (), w\<lparr>heap := (heap w)(a := None), calls := calls w @ [Free (Ptr a)]\<rparr>)"
  by (simp add: lfi_thread_destroy_def free_def log_def)

lemma destroy_calls: "calls (snd (lfi_thread_destroy h w)) = calls w @ [Free h]"
  by (simp add: lfi_thread_destroy_def free_def log_simps Let_def split: ptr.splits option.splits)

lemma destroy_issued: "issued w (snd (lfi_thread_destroy h w)) = [Free h]"
  by (rule issued_append) (rule destroy_calls)

lemma destroy_threads: "threads (snd (lfi_thread_destroy h w)) = threads w"
  by (simp add: lfi_thread_destroy_def free_def log_simps Let_def split: ptr.splits option.splits)

lemma destroy_live_attrs: "live_attrs (snd (lfi_thread_destroy h w)) = live_attrs w"
  by (simp add: lfi_thread_destroy_def free_def log_simps Let_def split: ptr.splits option.splits)

section \<open>Failure of the attribute setup\<close>

text \<open>
  C1. For every entry function, if \<open>pthread_attr_init\<close> or \<open>pthread_attr_setstacksize\<close>
  returns nonzero, \<open>_lfi_thread_create\<close> returns \<open>NULL\<close> and starts no thread: the calls it
  issues contain no \<open>pthread_create\<close>, and the threads of the world are those it had
  before.
\<close>

theorem create_attr_failure_no_spawn:
  assumes "attr_init_ret p \<noteq> 0 \<or> attr_setstacksize_ret p \<noteq> 0"
  shows "fst (lfi_thread_create p f w) = Inr NULL
     \<and> list_all (\<lambda>c. \<not> is_pthread_create c) (issued w (snd (lfi_thread_create p f w)))
     \<and> threads (snd (lfi_thread_create p f w)) = threads w"
  using assms by (auto simp: create_fst create_issued create_threads)

theorem create_attr_failure_no_spawn_witness:
  "fst (lfi_thread_create (answers (Ptr 4096) 0 22 0) 7 empty_world) = Inr NULL
   \<and> list_all (\<lambda>c. \<not> is_pthread_create c)
       (issued empty_world (snd (lfi_thread_create (answers (Ptr 4096) 0 22 0) 7 empty_world)))
   \<and> threads (snd (lfi_thread_create (answers (Ptr 4096) 0 22 0) 7 empty_world)) = []
   \<and> fst (lfi_thread_create (answers (Ptr 4096) 12 0 0) 7 empty_world) = Inr NULL"
  using create_attr_failure_no_spawn [of "answers (Ptr 4096) 0 22 0" 7 empty_world]
    create_attr_failure_no_spawn [of "answers (Ptr 4096) 12 0 0" 7 empty_world]
  by (simp add: answers_simps empty_world_simps)

text \<open>
  C4. On the attribute-failure path the block that \<open>malloc\<close> returned for the thread
  identifier is not freed: \<open>_lfi_thread_create\<close> returns \<open>NULL\<close>, issues no \<open>free\<close>, and
  the block is live in the final heap, which therefore differs from the heap before the
  call. (\<open>malloc\<close> returns an address that was not live.)
\<close>

theorem create_attr_failure_leaks_block:
  assumes "malloc_ret p = Ptr a" and "heap w a = None"
    and "attr_init_ret p \<noteq> 0 \<or> attr_setstacksize_ret p \<noteq> 0"
  shows "fst (lfi_thread_create p f w) = Inr NULL
     \<and> heap (snd (lfi_thread_create p f w)) =
         (heap w)(a \<mapsto> \<lparr>block_size = sizeof_pthread_t p, stored_id = None\<rparr>)
     \<and> heap (snd (lfi_thread_create p f w)) \<noteq> heap w
     \<and> Free (Ptr a) \<notin> set (issued w (snd (lfi_thread_create p f w)))"
proof -
  let ?w' = "snd (lfi_thread_create p f w)"
  have ret: "fst (lfi_thread_create p f w) = Inr NULL"
    using assms(3) by (auto simp: create_fst)
  have hp: "heap ?w' = (heap w)(a \<mapsto> \<lparr>block_size = sizeof_pthread_t p, stored_id = None\<rparr>)"
    using assms(1,3) by (auto simp: create_heap)
  have "heap ?w' a \<noteq> heap w a"
    using assms(2) by (simp add: hp)
  then have ne: "heap ?w' \<noteq> heap w"
    by auto
  have nofree: "Free (Ptr a) \<notin> set (issued w ?w')"
    by (simp add: create_issued)
  from ret hp ne nofree show ?thesis by blast
qed

theorem create_attr_failure_leaks_block_witness:
  "fst (lfi_thread_create (answers (Ptr 4096) 12 0 0) 7 empty_world) = Inr NULL
   \<and> heap (snd (lfi_thread_create (answers (Ptr 4096) 12 0 0) 7 empty_world)) 4096 =
       Some \<lparr>block_size = 8, stored_id = None\<rparr>
   \<and> heap (snd (lfi_thread_create (answers (Ptr 4096) 12 0 0) 7 empty_world)) \<noteq> heap empty_world
   \<and> Free (Ptr 4096) \<notin>
       set (issued empty_world (snd (lfi_thread_create (answers (Ptr 4096) 12 0 0) 7 empty_world)))"
  using create_attr_failure_leaks_block [of "answers (Ptr 4096) 12 0 0" 4096 empty_world 7]
  by (simp add: answers_simps empty_world_simps)

section \<open>The path on which the attribute setup succeeds\<close>

text \<open>
  C2. For every entry function, when the attribute setup succeeds \<open>_lfi_thread_create\<close>
  issues exactly the calls \<open>malloc\<close>, \<open>pthread_attr_init\<close>, \<open>pthread_attr_setstacksize\<close>
  with \<open>2 * 1024 * 1024\<close>, and then \<open>pthread_create\<close> with an attribute object whose stack
  size is \<open>2 * 1024 * 1024\<close>: the size is set before the spawn call and no call follows
  it. A thread that starts has a stack of that size. Afterwards neither function
  changes a thread that exists: a later \<open>_lfi_thread_create\<close> only appends to the thread
  list, and \<open>_lfi_thread_destroy\<close> leaves the list as it is and issues only \<open>free\<close>.
\<close>

theorem create_stack_size_two_mib:
  assumes "attr_init_ret p = 0" and "attr_setstacksize_ret p = 0"
  shows "issued w (snd (lfi_thread_create p f w)) =
           [Malloc (sizeof_pthread_t p) (malloc_ret p), AttrInit 0,
            AttrSetStackSize (2 * 1024 * 1024) 0,
            PthreadCreate (malloc_ret p) (Initialised \<lparr>stacksize = 2 * 1024 * 1024\<rparr>) f NULL
              (pthread_create_ret p)]
     \<and> (pthread_create_ret p = 0 \<and> malloc_ret p \<noteq> NULL \<longrightarrow>
          threads (snd (lfi_thread_create p f w)) =
            threads w @ [\<lparr>thread_id = new_thread_id p, start_routine = f, start_arg = NULL,
                           stack_size = 2 * 1024 * 1024\<rparr>])
     \<and> take (length (threads v)) (threads (snd (lfi_thread_create q g v))) = threads v
     \<and> threads (snd (lfi_thread_destroy h v)) = threads v
     \<and> issued v (snd (lfi_thread_destroy h v)) = [Free h]"
  using assms
  by (simp add: create_issued create_threads destroy_threads destroy_issued stack_size_arg_value)

theorem create_stack_size_two_mib_witness:
  "issued empty_world (snd (lfi_thread_create (answers (Ptr 4096) 0 0 0) 7 empty_world)) =
     [Malloc 8 (Ptr 4096), AttrInit 0, AttrSetStackSize 2097152 0,
      PthreadCreate (Ptr 4096) (Initialised \<lparr>stacksize = 2097152\<rparr>) 7 NULL 0]
   \<and> threads (snd (lfi_thread_create (answers (Ptr 4096) 0 0 0) 7 empty_world)) =
       [\<lparr>thread_id = 1, start_routine = 7, start_arg = NULL, stack_size = 2097152\<rparr>]
   \<and> threads (snd (lfi_thread_destroy (Ptr 4096)
         (snd (lfi_thread_create (answers (Ptr 4096) 0 0 0) 7 empty_world)))) =
       [\<lparr>thread_id = 1, start_routine = 7, start_arg = NULL, stack_size = 2097152\<rparr>]"
  using create_stack_size_two_mib [of "answers (Ptr 4096) 0 0 0" empty_world 7
      "snd (lfi_thread_create (answers (Ptr 4096) 0 0 0) 7 empty_world)"
      "answers (Ptr 8192) 0 0 0" 9 "Ptr 4096"]
  by (simp add: answers_simps empty_world_simps)

text \<open>
  C3 (as amended). \<open>_lfi_thread_create\<close> does not read the return value of
  \<open>pthread_create\<close>: for every entry function, when \<open>malloc\<close> returns a block and the
  attribute setup succeeds, the function returns that block, a non-null handle, whatever
  \<open>pthread_create\<close> returns, also when it returns nonzero and no thread has started.
\<close>

theorem create_ignores_spawn_result:
  assumes "malloc_ret p = Ptr a" and "attr_init_ret p = 0" and "attr_setstacksize_ret p = 0"
  shows "fst (lfi_thread_create p f w) = Inr (Ptr a)
     \<and> fst (lfi_thread_create p f w) \<noteq> Inr NULL
     \<and> (pthread_create_ret p \<noteq> 0 \<longrightarrow> threads (snd (lfi_thread_create p f w)) = threads w)"
  using assms by (simp add: create_fst create_threads)

theorem create_ignores_spawn_result_witness:
  "pthread_create_ret (answers (Ptr 4096) 0 0 11) \<noteq> 0
   \<and> fst (lfi_thread_create (answers (Ptr 4096) 0 0 11) 7 empty_world) = Inr (Ptr 4096)
   \<and> threads (snd (lfi_thread_create (answers (Ptr 4096) 0 0 11) 7 empty_world)) = []"
  using create_ignores_spawn_result [of "answers (Ptr 4096) 0 0 11" 4096 7 empty_world]
  by (simp add: answers_simps empty_world_simps)

text \<open>
  The claim as first stated asks only for the attribute setup to succeed. It fails when
  \<open>malloc\<close> returns the null pointer: with both attribute calls returning 0 and
  \<open>pthread_create\<close> returning 11 (\<open>EAGAIN\<close>), the value returned is \<open>NULL\<close>.
\<close>

theorem create_handle_absent_when_malloc_fails:
  "attr_init_ret (answers NULL 0 0 11) = 0
   \<and> attr_setstacksize_ret (answers NULL 0 0 11) = 0
   \<and> pthread_create_ret (answers NULL 0 0 11) \<noteq> 0
   \<and> fst (lfi_thread_create (answers NULL 0 0 11) 7 empty_world) = Inr NULL"
  by (simp add: create_fst answers_simps)

text \<open>
  C5. For every entry function, on the successful path (\<open>malloc\<close> returns a block, both
  attribute calls return 0) the only \<open>pthread_create\<close> call binds the thread to exactly
  that entry function with a null argument and is given the block as the place for the
  identifier; the value returned is the pointer to that block. When \<open>pthread_create\<close>
  returns 0, the thread started runs that entry function with a null argument, and
  the block holds its identifier.
\<close>

theorem create_binds_entry_null_arg:
  assumes "malloc_ret p = Ptr a" and "attr_init_ret p = 0" and "attr_setstacksize_ret p = 0"
  shows "fst (lfi_thread_create p f w) = Inr (Ptr a)
     \<and> filter is_pthread_create (issued w (snd (lfi_thread_create p f w))) =
         [PthreadCreate (Ptr a) (Initialised \<lparr>stacksize = stack_size_arg\<rparr>) f NULL
            (pthread_create_ret p)]
     \<and> (pthread_create_ret p = 0 \<longrightarrow>
          map start_routine (threads (snd (lfi_thread_create p f w))) =
            map start_routine (threads w) @ [f]
        \<and> map start_arg (threads (snd (lfi_thread_create p f w))) =
            map start_arg (threads w) @ [NULL]
        \<and> heap (snd (lfi_thread_create p f w)) a =
            Some \<lparr>block_size = sizeof_pthread_t p, stored_id = Some (new_thread_id p)\<rparr>)"
  using assms by (simp add: create_fst create_issued create_threads create_heap)

theorem create_binds_entry_null_arg_witness:
  "fst (lfi_thread_create (answers (Ptr 4096) 0 0 0) 7 empty_world) = Inr (Ptr 4096)
   \<and> map start_routine (threads (snd (lfi_thread_create (answers (Ptr 4096) 0 0 0) 7 empty_world))) = [7]
   \<and> map start_arg (threads (snd (lfi_thread_create (answers (Ptr 4096) 0 0 0) 7 empty_world))) = [NULL]
   \<and> heap (snd (lfi_thread_create (answers (Ptr 4096) 0 0 0) 7 empty_world)) 4096 =
       Some \<lparr>block_size = 8, stored_id = Some 1\<rparr>"
  using create_binds_entry_null_arg [of "answers (Ptr 4096) 0 0 0" 4096 7 empty_world]
  by (simp add: answers_simps empty_world_simps)

text \<open>
  C9. \<open>_lfi_thread_create\<close> does not test the pointer \<open>malloc\<close> returns. When it is null
  the function still goes on to \<open>pthread_attr_init\<close>, and when the attribute setup
  succeeds it calls \<open>pthread_create\<close> with the null pointer as the place for the
  identifier.
\<close>

theorem create_null_allocation_unguarded:
  assumes "malloc_ret p = NULL"
  shows "take 2 (issued w (snd (lfi_thread_create p f w))) =
           [Malloc (sizeof_pthread_t p) NULL, AttrInit (attr_init_ret p)]
     \<and> (attr_init_ret p = 0 \<and> attr_setstacksize_ret p = 0 \<longrightarrow>
          issued w (snd (lfi_thread_create p f w)) =
            [Malloc (sizeof_pthread_t p) NULL, AttrInit 0, AttrSetStackSize stack_size_arg 0,
             PthreadCreate NULL (Initialised \<lparr>stacksize = stack_size_arg\<rparr>) f NULL
               (pthread_create_ret p)])"
  using assms by (simp add: create_issued)

theorem create_null_allocation_unguarded_witness:
  "issued empty_world (snd (lfi_thread_create (answers NULL 0 0 0) 7 empty_world)) =
     [Malloc 8 NULL, AttrInit 0, AttrSetStackSize stack_size_arg 0,
      PthreadCreate NULL (Initialised \<lparr>stacksize = stack_size_arg\<rparr>) 7 NULL 0]"
  using create_null_allocation_unguarded [of "answers NULL 0 0 0" empty_world 7]
  by (simp add: answers_simps empty_world_simps)

text \<open>
  C10. On every path of \<open>_lfi_thread_create\<close> on which \<open>pthread_attr_init\<close> returns 0,
  the attribute object is not released: the function issues no \<open>pthread_attr_destroy\<close>
  and leaves one more attribute object in use than before. \<open>_lfi_thread_destroy\<close>
  issues no \<open>pthread_attr_destroy\<close> either and leaves the number in use as it is.
\<close>

theorem create_never_destroys_attrs:
  assumes "attr_init_ret p = 0"
  shows "AttrDestroy \<notin> set (issued w (snd (lfi_thread_create p f w)))
     \<and> live_attrs (snd (lfi_thread_create p f w)) = Suc (live_attrs w)
     \<and> AttrDestroy \<notin> set (issued v (snd (lfi_thread_destroy h v)))
     \<and> live_attrs (snd (lfi_thread_destroy h v)) = live_attrs v"
  using assms
  by (simp add: create_issued create_live_attrs destroy_issued destroy_live_attrs)

theorem create_never_destroys_attrs_witness:
  "AttrDestroy \<notin> set (issued empty_world (snd (lfi_thread_create (answers (Ptr 4096) 0 0 0) 7 empty_world)))
   \<and> live_attrs (snd (lfi_thread_create (answers (Ptr 4096) 0 0 0) 7 empty_world)) = 1
   \<and> live_attrs (snd (lfi_thread_destroy (Ptr 4096)
        (snd (lfi_thread_create (answers (Ptr 4096) 0 0 0) 7 empty_world)))) = 1
   \<and> live_attrs (snd (lfi_thread_create (answers (Ptr 4096) 0 22 0) 7 empty_world)) = 1"
  using create_never_destroys_attrs [of "answers (Ptr 4096) 0 0 0" empty_world 7
      "snd (lfi_thread_create (answers (Ptr 4096) 0 0 0) 7 empty_world)" "Ptr 4096"]
    create_never_destroys_attrs [of "answers (Ptr 4096) 0 22 0" empty_world 7 empty_world NULL]
  by (simp add: answers_simps empty_world_simps)

section \<open>Destroying a handle\<close>

text \<open>
  A handle that \<open>_lfi_thread_create\<close> returns points to a live block.
\<close>

lemma create_handle_live:
  assumes "fst (lfi_thread_create p f w) = Inr (Ptr a)"
  shows "heap (snd (lfi_thread_create p f w)) a \<noteq> None"
proof -
  have "malloc_ret p = Ptr a"
    using assms by (auto simp: create_fst split: if_splits ptr.splits)
  then show ?thesis
    by (simp add: create_heap)
qed

text \<open>
  C6. For every handle returned by a successful \<open>_lfi_thread_create\<close> and not released
  since, \<open>_lfi_thread_destroy\<close> returns normally and changes the world in two places
  only: the block the handle points to leaves the heap, and \<open>free\<close> of the handle is
  added to the log. It issues no other call (no join, detach, cancel or kill), and the
  threads, the attribute objects and every other heap block are as before.
\<close>

theorem destroy_frees_only_the_block:
  assumes "fst (lfi_thread_create p f w0) = Inr (Ptr a)"
    and "heap w a = heap (snd (lfi_thread_create p f w0)) a"
  shows "lfi_thread_destroy (Ptr a) w =
           (Inr (), w\<lparr>heap := (heap w)(a := None), calls := calls w @ [Free (Ptr a)]\<rparr>)
     \<and> issued w (snd (lfi_thread_destroy (Ptr a) w)) = [Free (Ptr a)]
     \<and> threads (snd (lfi_thread_destroy (Ptr a) w)) = threads w
     \<and> live_attrs (snd (lfi_thread_destroy (Ptr a) w)) = live_attrs w
     \<and> heap (snd (lfi_thread_destroy (Ptr a) w)) = (heap w)(a := None)"
proof -
  from create_handle_live [OF assms(1)] assms(2)
  obtain b where live: "heap w a = Some b"
    by auto
  have eq: "lfi_thread_destroy (Ptr a) w =
      (Inr (), w\<lparr>heap := (heap w)(a := None), calls := calls w @ [Free (Ptr a)]\<rparr>)"
    by (rule destroy_live [OF live])
  have hp: "heap (snd (lfi_thread_destroy (Ptr a) w)) = (heap w)(a := None)"
    by (simp add: eq)
  have cs: "issued w (snd (lfi_thread_destroy (Ptr a) w)) = [Free (Ptr a)]"
    by (rule destroy_issued)
  have ts: "threads (snd (lfi_thread_destroy (Ptr a) w)) = threads w"
    by (rule destroy_threads)
  have as: "live_attrs (snd (lfi_thread_destroy (Ptr a) w)) = live_attrs w"
    by (rule destroy_live_attrs)
  from eq cs ts as hp show ?thesis
    by blast
qed

theorem destroy_frees_only_the_block_witness:
  "lfi_thread_destroy (Ptr 4096) (snd (lfi_thread_create (answers (Ptr 4096) 0 0 0) 7 empty_world)) =
     (Inr (),
      \<lparr>heap = Map.empty,
       threads = [\<lparr>thread_id = 1, start_routine = 7, start_arg = NULL, stack_size = 2097152\<rparr>],
       live_attrs = 1,
       calls = [Malloc 8 (Ptr 4096), AttrInit 0, AttrSetStackSize 2097152 0,
                PthreadCreate (Ptr 4096) (Initialised \<lparr>stacksize = 2097152\<rparr>) 7 NULL 0,
                Free (Ptr 4096)]\<rparr>)"
proof -
  let ?w = "snd (lfi_thread_create (answers (Ptr 4096) 0 0 0) 7 empty_world)"
  have ret: "fst (lfi_thread_create (answers (Ptr 4096) 0 0 0) 7 empty_world) = Inr (Ptr 4096)"
    by (simp add: create_fst answers_simps)
  have w: "?w = \<lparr>heap = [4096 \<mapsto> \<lparr>block_size = 8, stored_id = Some 1\<rparr>],
       threads = [\<lparr>thread_id = 1, start_routine = 7, start_arg = NULL, stack_size = 2097152\<rparr>],
       live_attrs = 1,
       calls = [Malloc 8 (Ptr 4096), AttrInit 0, AttrSetStackSize 2097152 0,
                PthreadCreate (Ptr 4096) (Initialised \<lparr>stacksize = 2097152\<rparr>) 7 NULL 0]\<rparr>"
    by (simp add: create_unfold answers_simps empty_world_def stack_size_arg_value)
  from destroy_frees_only_the_block [OF ret refl]
  have "lfi_thread_destroy (Ptr 4096) ?w =
      (Inr (), ?w\<lparr>heap := (heap ?w)(4096 := None), calls := calls ?w @ [Free (Ptr 4096)]\<rparr>)"
    by blast
  then show ?thesis
    by (simp add: w)
qed

text \<open>
  C7. For every entry function, when \<open>_lfi_thread_create\<close> returns a handle and
  \<open>_lfi_thread_destroy\<close> is called on it at once, the call returns normally and frees
  exactly the block \<open>_lfi_thread_create\<close> allocated: the heap is again the heap from
  before \<open>_lfi_thread_create\<close>. (\<open>malloc\<close> returns an address that was not live.)
\<close>

theorem create_destroy_roundtrip:
  assumes "fst (lfi_thread_create p f w) = Inr (Ptr a)" and "heap w a = None"
  shows "fst (lfi_thread_destroy (Ptr a) (snd (lfi_thread_create p f w))) = Inr ()
     \<and> heap (snd (lfi_thread_destroy (Ptr a) (snd (lfi_thread_create p f w)))) =
         (heap (snd (lfi_thread_create p f w)))(a := None)
     \<and> heap (snd (lfi_thread_destroy (Ptr a) (snd (lfi_thread_create p f w)))) = heap w"
proof -
  let ?w1 = "snd (lfi_thread_create p f w)"
  have m: "malloc_ret p = Ptr a"
    using assms(1) by (auto simp: create_fst split: if_splits ptr.splits)
  from create_handle_live [OF assms(1)]
  obtain b where live: "heap ?w1 a = Some b"
    by auto
  have eq: "lfi_thread_destroy (Ptr a) ?w1 =
      (Inr (), ?w1\<lparr>heap := (heap ?w1)(a := None), calls := calls ?w1 @ [Free (Ptr a)]\<rparr>)"
    by (rule destroy_live [OF live])
  have restored: "(heap ?w1)(a := None) = heap w"
    using assms(2) m by (simp add: create_heap fun_eq_iff)
  from eq restored show ?thesis
    by simp
qed

theorem create_destroy_roundtrip_witness:
  "fst (lfi_thread_destroy (Ptr 4096)
      (snd (lfi_thread_create (answers (Ptr 4096) 0 0 0) 7 empty_world))) = Inr ()
   \<and> heap (snd (lfi_thread_destroy (Ptr 4096)
      (snd (lfi_thread_create (answers (Ptr 4096) 0 0 0) 7 empty_world)))) = Map.empty"
proof -
  have ret: "fst (lfi_thread_create (answers (Ptr 4096) 0 0 0) 7 empty_world) = Inr (Ptr 4096)"
    by (simp add: create_fst answers_simps)
  have fresh: "heap empty_world 4096 = None"
    by (simp add: empty_world_simps)
  from create_destroy_roundtrip [OF ret fresh]
  have "fst (lfi_thread_destroy (Ptr 4096)
          (snd (lfi_thread_create (answers (Ptr 4096) 0 0 0) 7 empty_world))) = Inr ()
     \<and> heap (snd (lfi_thread_destroy (Ptr 4096)
          (snd (lfi_thread_create (answers (Ptr 4096) 0 0 0) 7 empty_world)))) = heap empty_world"
    by blast
  then show ?thesis
    by (simp only: empty_world_simps)
qed

text \<open>
  C8. \<open>_lfi_thread_destroy\<close> on the null pointer returns normally and deallocates
  nothing: its one call is \<open>free(NULL)\<close>, and the heap, the threads and the attribute
  objects are as before.
\<close>

theorem destroy_null_is_noop:
  "lfi_thread_destroy NULL w = (Inr (), w\<lparr>calls := calls w @ [Free NULL]\<rparr>)
   \<and> heap (snd (lfi_thread_destroy NULL w)) = heap w
   \<and> threads (snd (lfi_thread_destroy NULL w)) = threads w
   \<and> live_attrs (snd (lfi_thread_destroy NULL w)) = live_attrs w"
  by (simp add: destroy_null)

end
